theory Spec2Isabelle
  imports Complex_Main
begin

section \<open>Python values and builtins used by the tracker\<close>

text \<open>
  The tracker is one Python class, \<^verbatim>\<open>TidbytBitcoinTracker\<close>, and a \<^verbatim>\<open>main\<close> function
  (file \<^verbatim>\<open>src/main.py\<close>). Its methods call two HTTP services, read the clock, print and
  sleep. The embedding below keeps the control flow of each method and makes every effect
  explicit: the object is a record that each method returns updated, every \<^verbatim>\<open>print\<close>,
  HTTP request and \<^verbatim>\<open>time.sleep\<close> is appended to a trace of events, and every exception
  is a value (\<open>Inl\<close>) of the method's result.

  Exceptions. \<^verbatim>\<open>KeyboardInterrupt\<close> derives from \<^verbatim>\<open>BaseException\<close> only, so
  \<^verbatim>\<open>except Exception\<close> does not catch it; every other class listed derives from
  \<^verbatim>\<open>Exception\<close>.
\<close>

datatype pyexn =
    KeyboardInterrupt
  | FileNotFoundError
  | PermissionError
  | KeyError
  | TypeError
  | ValueError
  | OverflowError
  | JSONDecodeError
  | RequestException

definition is_Exception :: "pyexn \<Rightarrow> bool" where
  "is_Exception e = (e \<noteq> KeyboardInterrupt)"

text \<open>
  A Python \<^verbatim>\<open>float\<close> is either a finite double, written as the rational number it
  denotes, or one of the three special values. The values a JSON document parses to are
  \<^verbatim>\<open>None\<close>, \<^verbatim>\<open>bool\<close>, \<^verbatim>\<open>int\<close>, \<^verbatim>\<open>float\<close>, \<^verbatim>\<open>str\<close>, \<^verbatim>\<open>list\<close> and \<^verbatim>\<open>dict\<close>;
  a dict is kept as its list of items.
\<close>

datatype pyfloat = Finite rat | PosInf | NegInf | NaN

datatype pyval =
    PNone
  | PBool bool
  | PInt int
  | PFloat pyfloat
  | PStr string
  | PList "pyval list"
  | PDict "(string \<times> pyval) list"

text \<open>\<^verbatim>\<open>d[k]\<close> for a string key: only a dict can be subscripted by a string.\<close>

fun subscript :: "pyval \<Rightarrow> string \<Rightarrow> pyexn + pyval" where
  "subscript (PDict items) k = (case map_of items k of None \<Rightarrow> Inl KeyError | Some v \<Rightarrow> Inr v)"
| "subscript _ k = Inl TypeError"

text \<open>
  The format specification \<^verbatim>\<open>,.2f\<close> of line 53. Only whether the formatting raises
  matters to the control flow: \<^verbatim>\<open>None\<close>, lists and dicts reject a format
  specification (\<^verbatim>\<open>TypeError\<close>), a \<^verbatim>\<open>str\<close> rejects the code \<^verbatim>\<open>f\<close>
  (\<^verbatim>\<open>ValueError\<close>), and an \<^verbatim>\<open>int\<close> is converted to a double first, which overflows
  from \<open>2^1024 - 2^970\<close> on.
\<close>

fun format_comma_2f :: "pyval \<Rightarrow> pyexn + unit" where
  "format_comma_2f PNone = Inl TypeError"
| "format_comma_2f (PBool b) = Inr ()"
| "format_comma_2f (PInt n) =
     (if 2 ^ 1024 - 2 ^ 970 \<le> \<bar>n\<bar> then Inl OverflowError else Inr ())"
| "format_comma_2f (PFloat x) = Inr ()"
| "format_comma_2f (PStr s) = Inl ValueError"
| "format_comma_2f (PList xs) = Inl TypeError"
| "format_comma_2f (PDict items) = Inl TypeError"

text \<open>
  \<^verbatim>\<open>int(x)\<close>. A finite float is truncated toward zero; \<^verbatim>\<open>nan\<close> and the infinities
  raise. A \<^verbatim>\<open>str\<close> is parsed, or rejected with \<^verbatim>\<open>ValueError\<close>; the grammar
  \<^verbatim>\<open>int\<close> accepts differs between interpreter versions, so the parser is a parameter
  (\<open>None\<close> where it rejects).
\<close>

definition py_trunc :: "rat \<Rightarrow> int" where
  "py_trunc x = (if 0 \<le> x then \<lfloor>x\<rfloor> else \<lceil>x\<rceil>)"

fun py_int :: "(string \<Rightarrow> int option) \<Rightarrow> pyval \<Rightarrow> pyexn + int" where
  "py_int conv PNone = Inl TypeError"
| "py_int conv (PBool b) = Inr (if b then 1 else 0)"
| "py_int conv (PInt n) = Inr n"
| "py_int conv (PFloat (Finite x)) = Inr (py_trunc x)"
| "py_int conv (PFloat PosInf) = Inl OverflowError"
| "py_int conv (PFloat NegInf) = Inl OverflowError"
| "py_int conv (PFloat NaN) = Inl ValueError"
| "py_int conv (PStr s) = (case conv s of None \<Rightarrow> Inl ValueError | Some n \<Rightarrow> Inr n)"
| "py_int conv (PList xs) = Inl TypeError"
| "py_int conv (PDict items) = Inl TypeError"

text \<open>\<^verbatim>\<open>str(n)\<close> for an \<^verbatim>\<open>int\<close>: decimal digits, with a minus sign when negative.\<close>

definition digit_char :: "nat \<Rightarrow> char" where
  "digit_char d = ''0123456789'' ! d"

fun str_nat :: "nat \<Rightarrow> string" where
  "str_nat n = (if n < 10 then [digit_char n] else str_nat (n div 10) @ [digit_char (n mod 10)])"

declare str_nat.simps [simp del]

definition str_int :: "int \<Rightarrow> string" where
  "str_int i = (if i < 0 then CHR ''-'' # str_nat (nat (- i)) else str_nat (nat i))"

text \<open>
  \<^verbatim>\<open>base64.b64encode\<close> (RFC 4648, standard alphabet, padded with \<^verbatim>\<open>=\<close>). A byte string
  is a \<open>string\<close>, one \<open>char\<close> per byte.
\<close>

definition b64_char :: "nat \<Rightarrow> char" where
  "b64_char i = ''ABCDEFGHIJKLMNOPQRSTUVWXYZabcdefghijklmnopqrstuvwxyz0123456789+/'' ! i"

fun b64encode :: "string \<Rightarrow> string" where
  "b64encode [] = []"
| "b64encode [a] =
     (let x = of_char a :: nat
      in [b64_char (x div 4), b64_char (x mod 4 * 16), CHR ''='', CHR ''=''])"
| "b64encode [a, b] =
     (let x = of_char a :: nat; y = of_char b :: nat
      in [b64_char (x div 4), b64_char (x mod 4 * 16 + y div 16),
          b64_char (y mod 16 * 4), CHR ''=''])"
| "b64encode (a # b # c # rest) =
     (let x = of_char a :: nat; y = of_char b :: nat; z = of_char c :: nat
      in [b64_char (x div 4), b64_char (x mod 4 * 16 + y div 16),
          b64_char (y mod 16 * 4 + z div 64), b64_char (z mod 64)] @ b64encode rest)"

section \<open>The tracker object, the environment and the trace\<close>

text \<open>
  Times are microseconds (the resolution of \<^verbatim>\<open>datetime\<close>); \<^verbatim>\<open>timedelta(minutes=4)\<close>
  is 240000000. \<open>last_price\<close> is \<open>PNone\<close> for Python's \<^verbatim>\<open>None\<close> and otherwise
  whatever value line 50 read from the price document.
\<close>

record tracker =
  device_id :: string
  api_key :: string
  last_price :: pyval
  last_update :: "int option"
  cache_ttl :: int

definition init :: "string \<Rightarrow> string \<Rightarrow> tracker" where
  "init dev key =
     \<lparr> device_id = dev, api_key = key, last_price = PNone, last_update = None,
       cache_ttl = 240000000 \<rparr>"

text \<open>
  What \<^verbatim>\<open>requests\<close> hands back: the status code, the body as bytes
  (\<^verbatim>\<open>response.content\<close>), the body as text (\<^verbatim>\<open>response.text\<close>) and the outcome of
  \<^verbatim>\<open>response.json()\<close>, which parses the body or raises.
\<close>

record response =
  status_code :: int
  content :: string
  resp_text :: string
  resp_json :: "pyexn + pyval"

text \<open>
  What the outside world does during one pass of the loop: the clock read by
  \<^verbatim>\<open>datetime.now()\<close>, the outcome of each of the three HTTP calls (a response, or the
  exception the call raises) and of \<^verbatim>\<open>time.sleep\<close> (\<open>None\<close> when it returns), and
  the interpreter's parser of integer literals. A call the pass does not reach does not
  consult its field.
\<close>

record iter_env =
  now :: int
  get_result :: "pyexn + response"
  render_result :: "pyexn + response"
  push_result :: "pyexn + response"
  sleep_result :: "pyexn option"
  int_of_str :: "string \<Rightarrow> int option"

text \<open>The lines the program prints, one constructor per \<^verbatim>\<open>print\<close> statement.\<close>

datatype message =
    UsingCachedPrice           \<comment> \<open>line 43: \<^verbatim>\<open>Using cached price\<close>\<close>
  | FetchedNewPrice pyval      \<comment> \<open>line 53: \<^verbatim>\<open>Fetched new price: $...\<close>\<close>
  | FailedFetchStatus int      \<comment> \<open>line 56: \<^verbatim>\<open>Failed to fetch Bitcoin price. Status code: ...\<close>\<close>
  | ErrorFetching pyexn        \<comment> \<open>line 59: \<^verbatim>\<open>Error fetching Bitcoin price: ...\<close>\<close>
  | FailedRenderStatus int     \<comment> \<open>line 98: \<^verbatim>\<open>Failed to render WebP. Status code: ...\<close>\<close>
  | ErrorCreatingWebP pyexn    \<comment> \<open>line 103: \<^verbatim>\<open>Error creating WebP: ...\<close>\<close>
  | PushedToTidbyt             \<comment> \<open>line 136: \<^verbatim>\<open>Successfully pushed to Tidbyt!\<close>\<close>
  | FailedPushStatus int       \<comment> \<open>line 139: \<^verbatim>\<open>Failed to push to Tidbyt. Status: ...\<close>\<close>
  | PushResponse string        \<comment> \<open>line 140: \<^verbatim>\<open>Response: ...\<close>\<close>
  | ErrorPushing pyexn         \<comment> \<open>line 144: \<^verbatim>\<open>Error pushing to Tidbyt: ...\<close>\<close>
  | StartingUpdates int        \<comment> \<open>line 154: \<^verbatim>\<open>Starting Bitcoin price updates every ... seconds...\<close>\<close>
  | FailedWillRetry            \<comment> \<open>line 159: \<^verbatim>\<open>Failed to update. Will retry...\<close>\<close>
  | StoppingTracker            \<comment> \<open>line 162: \<^verbatim>\<open>Stopping Bitcoin tracker...\<close>\<close>
  | UnexpectedError pyexn      \<comment> \<open>line 164: \<^verbatim>\<open>Unexpected error: ...\<close>\<close>
  | PleaseCreateConfig         \<comment> \<open>line 174: \<^verbatim>\<open>Please create a tidbyt_config.json file ...\<close>\<close>
  | ConfigMustContain          \<comment> \<open>line 177: \<^verbatim>\<open>Config file must contain 'device_id' and 'api_key' fields\<close>\<close>

datatype body = Data string | Json pyval

datatype event =
    Print message
  | Get string
  | Post string "(string \<times> string) list" body
  | Sleep int

type_synonym 'a result = "(pyexn + 'a) \<times> tracker \<times> event list"

section \<open>Fetching the price, with the cache\<close>

definition COINDESK_PRICE_URL :: string where
  "COINDESK_PRICE_URL = ''https://api.coindesk.com/v1/bpi/currentprice.json''"

text \<open>
  The handler of lines 58-60: an \<^verbatim>\<open>Exception\<close> is printed and the method returns
  \<^verbatim>\<open>None\<close>; a \<^verbatim>\<open>KeyboardInterrupt\<close> leaves the method.
\<close>

definition fetch_except :: "pyexn \<Rightarrow> tracker \<Rightarrow> event list \<Rightarrow> pyval result" where
  "fetch_except e self evs =
     (if is_Exception e then (Inr PNone, self, evs @ [Print (ErrorFetching e)])
      else (Inl e, self, evs))"

text \<open>Lines 40-42: the cached price is used when both fields are set and it is younger than the TTL.\<close>

definition cache_valid :: "tracker \<Rightarrow> int \<Rightarrow> bool" where
  "cache_valid self t =
     (last_price self \<noteq> PNone \<and>
      (case last_update self of None \<Rightarrow> False | Some u \<Rightarrow> t - u < cache_ttl self))"

text \<open>Lines 49-50: \<^verbatim>\<open>response.json()["bpi"]["USD"]["rate_float"]\<close>.\<close>

definition read_price :: "response \<Rightarrow> pyexn + pyval" where
  "read_price response =
     (case resp_json response of
        Inl e \<Rightarrow> Inl e
      | Inr data \<Rightarrow>
          (case subscript data ''bpi'' of
             Inl e \<Rightarrow> Inl e
           | Inr bpi \<Rightarrow>
               (case subscript bpi ''USD'' of
                  Inl e \<Rightarrow> Inl e
                | Inr usd \<Rightarrow> subscript usd ''rate_float'')))"

text \<open>
  \<^verbatim>\<open>get_bitcoin_price\<close>. In the branch of status 200 the two fields are assigned (lines
  51-52) before the price is formatted for printing (line 53).
\<close>

definition get_bitcoin_price :: "tracker \<Rightarrow> iter_env \<Rightarrow> pyval result" where
  "get_bitcoin_price self env =
     (if cache_valid self (now env) then (Inr (last_price self), self, [Print UsingCachedPrice])
      else
        (case get_result env of
           Inl e \<Rightarrow> fetch_except e self [Get COINDESK_PRICE_URL]
         | Inr response \<Rightarrow>
             if status_code response = 200 then
               (case read_price response of
                  Inl e \<Rightarrow> fetch_except e self [Get COINDESK_PRICE_URL]
                | Inr price \<Rightarrow>
                    (let self1 = self\<lparr>last_price := price, last_update := Some (now env)\<rparr>
                     in case format_comma_2f price of
                          Inl e \<Rightarrow> fetch_except e self1 [Get COINDESK_PRICE_URL]
                        | Inr u \<Rightarrow>
                            (Inr price, self1,
                             [Get COINDESK_PRICE_URL, Print (FetchedNewPrice price)])))
             else
               (Inr PNone, self,
                [Get COINDESK_PRICE_URL, Print (FailedFetchStatus (status_code response))])))"

section \<open>Rendering\<close>

definition BTC_ICON :: string where
  "BTC_ICON =
     ''\<newline>    iVBORw0KGgoAAAANSUhEUgAAABEAAAARCAYAAAA7bUf6AAAAlklEQVQ4T2NkwAH+H2T/jy7FaP+'' @
     ''\<newline>    TEZtyDEG4Zi0TTPXXzoDF0A1DMQRsADbN6MZdO4NiENwQbAbERh1lWLzMmgFGo5iFZBDYEFwuwG'' @
     ''\<newline>    sISCPUIKyGgDRjAyBXYXMNIz5XgDQga8TpLboYgux8DO/AwoUuLiEqTLBFMcmxQ7V0gssgklIsL'' @
     ''\<newline>    AYozjsoBoE45OZi5DRBSnkCAMLhlPBiQGHlAAAAAElFTkSuQmCC'' @
     ''\<newline>    ''"

definition PIXLET_RENDER_URL :: string where
  "PIXLET_RENDER_URL = ''https://pixlet.tidbyt.com/render''"

text \<open>
  The f-string of lines 69-89, in three parts: the text before the argument of
  \<^verbatim>\<open>render.Text\<close>, the argument itself, and the text after it. In an f-string the
  dollar sign is an ordinary character, so the argument is a dollar sign followed by
  \<^verbatim>\<open>str(int(price))\<close>.
\<close>

definition render_head :: string where
  \<open>render_head =
     ''\<newline>load("render.star", "render")'' @
     ''\<newline>load("encoding/base64.star", "base64")'' @
     ''\<newline>'' @
     ''\<newline>BTC_ICON = base64.decode("""'' @ BTC_ICON @ ''""")'' @
     ''\<newline>'' @
     ''\<newline>def main():'' @
     ''\<newline>    return render.Root('' @
     ''\<newline>        child = render.Box('' @
     ''\<newline>            render.Row('' @
     ''\<newline>                expanded=True,'' @
     ''\<newline>                main_align="space_evenly",'' @
     ''\<newline>                cross_align="center",'' @
     ''\<newline>                children = ['' @
     ''\<newline>                    render.Image(src=BTC_ICON),'' @
     ''\<newline>                    render.Text("''\<close>

definition text_label :: "int \<Rightarrow> string" where
  "text_label n = CHR ''$'' # str_int n"

definition render_tail :: string where
  \<open>render_tail =
     ''"),'' @
     ''\<newline>                ],'' @
     ''\<newline>            ),'' @
     ''\<newline>        ),'' @
     ''\<newline>    )'' @
     ''\<newline>''\<close>

definition render_code :: "int \<Rightarrow> string" where
  "render_code n = render_head @ text_label n @ render_tail"

text \<open>
  \<^verbatim>\<open>create_webp\<close>. The f-string, and with it \<^verbatim>\<open>int(price)\<close>, is evaluated before the
  \<^verbatim>\<open>try\<close> of line 90, so an exception of \<^verbatim>\<open>int\<close> leaves the method. The result is
  \<open>None\<close> for Python's \<^verbatim>\<open>None\<close> and \<open>Some\<close> of the body otherwise.
\<close>

definition create_webp :: "tracker \<Rightarrow> iter_env \<Rightarrow> string option result" where
  "create_webp self env =
     (case get_bitcoin_price self env of
        (Inl e, self1, evs) \<Rightarrow> (Inl e, self1, evs)
      | (Inr price, self1, evs) \<Rightarrow>
          if price = PNone then (Inr None, self1, evs)
          else
            (case py_int (int_of_str env) price of
               Inl e \<Rightarrow> (Inl e, self1, evs)
             | Inr n \<Rightarrow>
                 (let request = Post PIXLET_RENDER_URL [] (Data (render_code n))
                  in case render_result env of
                       Inl e \<Rightarrow>
                         if is_Exception e
                         then (Inr None, self1, evs @ [request, Print (ErrorCreatingWebP e)])
                         else (Inl e, self1, evs @ [request])
                     | Inr response \<Rightarrow>
                         if status_code response \<noteq> 200
                         then (Inr None, self1,
                               evs @ [request, Print (FailedRenderStatus (status_code response))])
                         else (Inr (Some (content response)), self1, evs @ [request]))))"

section \<open>Pushing to the device\<close>

text \<open>\<^verbatim>\<open>TIDBYT_API_URL.format(device_id)\<close>.\<close>

definition TIDBYT_API_URL :: "string \<Rightarrow> string" where
  "TIDBYT_API_URL dev = ''https://api.tidbyt.com/v0/devices/'' @ dev @ ''/push''"

text \<open>
  \<^verbatim>\<open>push_to_tidbyt\<close>. \<^verbatim>\<open>not webp_data\<close> holds for \<^verbatim>\<open>None\<close> and for the empty byte
  string. The body passed as \<^verbatim>\<open>json=data\<close> is kept as the dict it serialises.
\<close>

definition push_to_tidbyt :: "tracker \<Rightarrow> iter_env \<Rightarrow> bool result" where
  "push_to_tidbyt self env =
     (case create_webp self env of
        (Inl e, self1, evs) \<Rightarrow> (Inl e, self1, evs)
      | (Inr webp_data, self1, evs) \<Rightarrow>
          (case webp_data of
             None \<Rightarrow> (Inr False, self1, evs)
           | Some bytes \<Rightarrow>
               if bytes = [] then (Inr False, self1, evs)
               else
                 (let encoded_webp = b64encode bytes;
                      headers = [(''Authorization'', ''Bearer '' @ api_key self1),
                                 (''Content-Type'', ''application/json'')];
                      data = PDict [(''image'', PStr encoded_webp),
                                    (''installation_id'', PStr ''bitcoin-tracker''),
                                    (''background'', PBool True)];
                      request = Post (TIDBYT_API_URL (device_id self1)) headers (Json data)
                  in case push_result env of
                       Inl e \<Rightarrow>
                         if is_Exception e
                         then (Inr False, self1, evs @ [request, Print (ErrorPushing e)])
                         else (Inl e, self1, evs @ [request])
                     | Inr response \<Rightarrow>
                         if status_code response = 200
                         then (Inr True, self1, evs @ [request, Print PushedToTidbyt])
                         else (Inr False, self1,
                               evs @ [request,
                                      Print (FailedPushStatus (status_code response)),
                                      Print (PushResponse (resp_text response))]))))"

section \<open>The update loop\<close>

text \<open>The body of the \<^verbatim>\<open>while\<close> loop, lines 157-160.\<close>

definition iteration :: "tracker \<Rightarrow> int \<Rightarrow> iter_env \<Rightarrow> unit result" where
  "iteration self update_interval env =
     (case push_to_tidbyt self env of
        (Inl e, self1, evs) \<Rightarrow> (Inl e, self1, evs)
      | (Inr success, self1, evs) \<Rightarrow>
          (let evs1 = (if \<not> success then evs @ [Print FailedWillRetry] else evs)
           in case sleep_result env of
                Some e \<Rightarrow> (Inl e, self1, evs1 @ [Sleep update_interval])
              | None \<Rightarrow> (Inr (), self1, evs1 @ [Sleep update_interval])))"

text \<open>
  \<^verbatim>\<open>while True\<close> has no exit of its own: it goes on until a pass raises. It is run here
  against a finite list of environments, one per pass; \<open>None\<close> says that every pass of
  the list was completed and the loop is about to start the next one.
\<close>

fun while_true :: "tracker \<Rightarrow> int \<Rightarrow> iter_env list \<Rightarrow> pyexn option \<times> tracker \<times> event list" where
  "while_true self update_interval [] = (None, self, [])"
| "while_true self update_interval (env # envs) =
     (case iteration self update_interval env of
        (Inl e, self1, evs) \<Rightarrow> (Some e, self1, evs)
      | (Inr u, self1, evs) \<Rightarrow>
          (case while_true self1 update_interval envs of
             (r, self2, evs2) \<Rightarrow> (r, self2, evs @ evs2)))"

text \<open>
  How \<^verbatim>\<open>run_continuous_updates\<close> stands after the given passes: still in the loop,
  returned through the \<^verbatim>\<open>KeyboardInterrupt\<close> handler (line 161), or returned through the
  \<^verbatim>\<open>Exception\<close> handler (line 163). Both handlers are outside the \<^verbatim>\<open>while\<close>.
\<close>

datatype loop_state = Running | Stopped | Failed pyexn

definition run_continuous_updates ::
    "tracker \<Rightarrow> int \<Rightarrow> iter_env list \<Rightarrow> loop_state \<times> tracker \<times> event list" where
  "run_continuous_updates self update_interval envs =
     (case while_true self update_interval envs of
        (None, self1, evs) \<Rightarrow> (Running, self1, Print (StartingUpdates update_interval) # evs)
      | (Some e, self1, evs) \<Rightarrow>
          if e = KeyboardInterrupt
          then (Stopped, self1,
                Print (StartingUpdates update_interval) # evs @ [Print StoppingTracker])
          else (Failed e, self1,
                Print (StartingUpdates update_interval) # evs @ [Print (UnexpectedError e)]))"

section \<open>Startup\<close>

text \<open>
  What the file system does at startup: \<^verbatim>\<open>open\<close> succeeds (\<open>None\<close>) or raises, and
  \<^verbatim>\<open>json.load\<close> parses the file or raises.
\<close>

record config_env =
  open_result :: "pyexn option"
  load_result :: "pyexn + pyval"

text \<open>
  \<^verbatim>\<open>main\<close> returns early from one of its two handlers, lets another exception through, or
  runs the tracker. The constructor takes two \<^verbatim>\<open>str\<close>; a configuration whose two fields
  hold JSON values of another type is not followed further (\<open>CredentialsNotStr\<close>).
\<close>

datatype main_state = ReturnedEarly | Uncaught pyexn | Tracker loop_state | CredentialsNotStr

definition main_except :: "pyexn \<Rightarrow> main_state \<times> event list" where
  "main_except e =
     (if e = FileNotFoundError then (ReturnedEarly, [Print PleaseCreateConfig])
      else if e = KeyError then (ReturnedEarly, [Print ConfigMustContain])
      else (Uncaught e, []))"

definition main :: "config_env \<Rightarrow> iter_env list \<Rightarrow> main_state \<times> event list" where
  "main cfg envs =
     (case open_result cfg of
        Some e \<Rightarrow> main_except e
      | None \<Rightarrow>
          (case load_result cfg of
             Inl e \<Rightarrow> main_except e
           | Inr config \<Rightarrow>
               (case subscript config ''device_id'' of
                  Inl e \<Rightarrow> main_except e
                | Inr dev \<Rightarrow>
                    (case subscript config ''api_key'' of
                       Inl e \<Rightarrow> main_except e
                     | Inr key \<Rightarrow>
                         (case (dev, key) of
                            (PStr d, PStr k) \<Rightarrow>
                              (case run_continuous_updates (init d k) 300 envs of
                                 (st, self1, evs) \<Rightarrow> (Tracker st, evs))
                          | _ \<Rightarrow> (CredentialsNotStr, []))))))"

section \<open>Predicates used in the statements\<close>

text \<open>Python's \<^verbatim>\<open>value > 0\<close>, false where the comparison is false or undefined.\<close>

fun positive :: "pyval \<Rightarrow> bool" where
  "positive (PBool b) = b"
| "positive (PInt n) = (0 < n)"
| "positive (PFloat (Finite x)) = (0 < x)"
| "positive (PFloat PosInf) = True"
| "positive _ = False"

definition price_inv :: "tracker \<Rightarrow> bool" where
  "price_inv self = (last_price self = PNone \<or> positive (last_price self))"

text \<open>The price the price service answers with in a pass, when it answers 200 and the document has one.\<close>

definition api_price :: "iter_env \<Rightarrow> pyval option" where
  "api_price env =
     (case get_result env of
        Inl e \<Rightarrow> None
      | Inr response \<Rightarrow>
          if status_code response = 200
          then (case read_price response of Inl e \<Rightarrow> None | Inr v \<Rightarrow> Some v)
          else None)"

definition api_positive :: "iter_env \<Rightarrow> bool" where
  "api_positive env = (case api_price env of None \<Rightarrow> True | Some v \<Rightarrow> positive v)"

text \<open>
  The values \<^verbatim>\<open>int\<close> converts whatever the parser of strings: booleans, integers and
  finite floats. A cached value is safe for \<^verbatim>\<open>create_webp\<close> when it is \<^verbatim>\<open>None\<close> (then
  it is not used) or one of these.
\<close>

fun has_int :: "pyval \<Rightarrow> bool" where
  "has_int (PBool b) = True"
| "has_int (PInt n) = True"
| "has_int (PFloat (Finite x)) = True"
| "has_int _ = False"

definition int_safe :: "pyval \<Rightarrow> bool" where
  "int_safe v = (v = PNone \<or> has_int v)"

definition price_safe :: "iter_env \<Rightarrow> bool" where
  "price_safe env = (case api_price env of None \<Rightarrow> True | Some v \<Rightarrow> int_safe v)"

text \<open>No call of the pass raises \<^verbatim>\<open>KeyboardInterrupt\<close>.\<close>

definition interrupt_free :: "iter_env \<Rightarrow> bool" where
  "interrupt_free env =
     ((case get_result env of
         Inl e \<Rightarrow> e \<noteq> KeyboardInterrupt
       | Inr response \<Rightarrow> resp_json response \<noteq> Inl KeyboardInterrupt) \<and>
      render_result env \<noteq> Inl KeyboardInterrupt \<and>
      push_result env \<noteq> Inl KeyboardInterrupt \<and>
      sleep_result env \<noteq> Some KeyboardInterrupt)"

text \<open>
  A pass in which nothing is interrupted, \<^verbatim>\<open>time.sleep\<close> returns, and the price read from
  the service, if one is read, is safe. The three HTTP calls may answer any status and
  raise any \<^verbatim>\<open>Exception\<close>.
\<close>

definition benign :: "iter_env \<Rightarrow> bool" where
  "benign env = (interrupt_free env \<and> sleep_result env = None \<and> price_safe env)"

text \<open>The request of lines 129-133, for the bytes \<^verbatim>\<open>create_webp\<close> returned.\<close>

definition push_request :: "tracker \<Rightarrow> string \<Rightarrow> event" where
  "push_request self bytes =
     Post (TIDBYT_API_URL (device_id self))
       [(''Authorization'', ''Bearer '' @ api_key self), (''Content-Type'', ''application/json'')]
       (Json (PDict [(''image'', PStr (b64encode bytes)),
                     (''installation_id'', PStr ''bitcoin-tracker''),
                     (''background'', PBool True)]))"

section \<open>Sample responses and environments\<close>

definition price_document :: "pyval \<Rightarrow> pyval" where
  "price_document v = PDict [(''bpi'', PDict [(''USD'', PDict [(''rate_float'', v)])])]"

definition price_response :: "pyval \<Rightarrow> response" where
  "price_response v =
     \<lparr> status_code = 200, content = [], resp_text = [], resp_json = Inr (price_document v) \<rparr>"

definition plain_response :: "int \<Rightarrow> string \<Rightarrow> response" where
  "plain_response code bytes =
     \<lparr> status_code = code, content = bytes, resp_text = bytes, resp_json = Inl JSONDecodeError \<rparr>"

definition no_conv :: "string \<Rightarrow> int option" where
  "no_conv s = None"

text \<open>
  A pass at time \<open>t\<close> in which the price service answers \<open>v\<close>, the renderer answers 200
  with the four bytes \<^verbatim>\<open>RIFF\<close>, the device answers 200 and the sleep is not interrupted.
\<close>

definition sample_env :: "int \<Rightarrow> pyval \<Rightarrow> iter_env" where
  "sample_env t v =
     \<lparr> now = t, get_result = Inr (price_response v),
       render_result = Inr (plain_response 200 ''RIFF''),
       push_result = Inr (plain_response 200 ''{}''),
       sleep_result = None, int_of_str = no_conv \<rparr>"

text \<open>Variations of the sample pass: another answer of one of the services, or an interrupted sleep.\<close>

definition with_get :: "pyexn + response \<Rightarrow> iter_env \<Rightarrow> iter_env" where
  "with_get r env = env\<lparr>get_result := r\<rparr>"

definition with_render :: "pyexn + response \<Rightarrow> iter_env \<Rightarrow> iter_env" where
  "with_render r env = env\<lparr>render_result := r\<rparr>"

definition with_push :: "pyexn + response \<Rightarrow> iter_env \<Rightarrow> iter_env" where
  "with_push r env = env\<lparr>push_result := r\<rparr>"

definition with_sleep :: "pyexn option \<Rightarrow> iter_env \<Rightarrow> iter_env" where
  "with_sleep r env = env\<lparr>sleep_result := r\<rparr>"

text \<open>
  Three passes that fail in three ways: the price service answers 503; the call to the
  renderer raises; the device answers 403.
\<close>

definition failing_passes :: "iter_env list" where
  "failing_passes =
     [with_get (Inr (plain_response 503 ''unavailable'')) (sample_env 0 (PFloat (Finite 70000))),
      with_render (Inl RequestException) (sample_env 300000000 (PFloat (Finite 70000))),
      with_push (Inr (plain_response 403 ''forbidden''))
        (sample_env 600000000 (PFloat (Finite 70000)))]"

text \<open>A tracker whose cache holds \<open>v\<close>, fetched at time \<open>t\<close>.\<close>

definition cached_tracker :: "pyval \<Rightarrow> int \<Rightarrow> tracker" where
  "cached_tracker v t = (init ''dev'' ''key'')\<lparr>last_price := v, last_update := Some t\<rparr>"

section \<open>The cache\<close>

lemma get_bitcoin_price_hit:
  "cache_valid self (now env) \<Longrightarrow>
     get_bitcoin_price self env = (Inr (last_price self), self, [Print UsingCachedPrice])"
  by (simp add: get_bitcoin_price_def)

lemma get_bitcoin_price_miss:
  "\<not> cache_valid self (now env) \<Longrightarrow>
     \<exists>r self1 evs. get_bitcoin_price self env = (r, self1, Get COINDESK_PRICE_URL # evs)"
  by (auto simp add: get_bitcoin_price_def fetch_except_def Let_def split: sum.splits)

text \<open>
  Claim C2. With the TTL of four minutes: when a price is cached and less than the TTL
  has passed since it was fetched, \<open>get_bitcoin_price\<close> returns the cached price, leaves
  the tracker as it is and issues no request (it only prints that the cache was used);
  when no price is cached, or the TTL or more has passed, the first thing it does is the
  GET request to the price service.
\<close>

theorem C2_cache_read:
  assumes "cache_ttl self = 240000000"
  shows "(last_price self \<noteq> PNone \<and> (\<exists>u. last_update self = Some u \<and> now env - u < 240000000)
            \<longrightarrow> get_bitcoin_price self env = (Inr (last_price self), self, [Print UsingCachedPrice]))
       \<and> (last_price self = PNone \<or> last_update self = None
            \<or> (\<exists>u. last_update self = Some u \<and> 240000000 \<le> now env - u)
            \<longrightarrow> (\<exists>r self1 evs. get_bitcoin_price self env = (r, self1, Get COINDESK_PRICE_URL # evs)))"
proof (intro conjI impI)
  assume "last_price self \<noteq> PNone \<and> (\<exists>u. last_update self = Some u \<and> now env - u < 240000000)"
  with assms have "cache_valid self (now env)"
    by (auto simp add: cache_valid_def)
  then show "get_bitcoin_price self env = (Inr (last_price self), self, [Print UsingCachedPrice])"
    by (rule get_bitcoin_price_hit)
next
  assume "last_price self = PNone \<or> last_update self = None
            \<or> (\<exists>u. last_update self = Some u \<and> 240000000 \<le> now env - u)"
  with assms have "\<not> cache_valid self (now env)"
    by (auto simp add: cache_valid_def split: option.splits)
  then show "\<exists>r self1 evs. get_bitcoin_price self env = (r, self1, Get COINDESK_PRICE_URL # evs)"
    by (rule get_bitcoin_price_miss)
qed

text \<open>
  One microsecond before the TTL the price cached at time 0 is returned; at the TTL the
  price service is asked.
\<close>

theorem C2_cache_read_witness:
  "get_bitcoin_price (cached_tracker (PFloat (Finite 67890)) 0)
       (sample_env 239999999 (PFloat (Finite 70000)))
     = (Inr (PFloat (Finite 67890)), cached_tracker (PFloat (Finite 67890)) 0,
        [Print UsingCachedPrice])
   \<and> (\<exists>r self1 evs.
        get_bitcoin_price (cached_tracker (PFloat (Finite 67890)) 0)
            (sample_env 240000000 (PFloat (Finite 70000)))
          = (r, self1, Get COINDESK_PRICE_URL # evs))"
  using C2_cache_read [of "cached_tracker (PFloat (Finite 67890)) 0"
                          "sample_env 239999999 (PFloat (Finite 70000))"]
        C2_cache_read [of "cached_tracker (PFloat (Finite 67890)) 0"
                          "sample_env 240000000 (PFloat (Finite 70000))"]
  by (simp add: cached_tracker_def init_def sample_env_def)

section \<open>Startup: which errors are handled\<close>

text \<open>
  Claim C7. When the configuration file is missing (\<open>open\<close> raises
  \<open>FileNotFoundError\<close>), or it parses to an object without the key \<open>device_id\<close> or
  without the key \<open>api_key\<close>, \<open>main\<close> returns early and its whole trace is the one
  message it prints: no GET and no POST request is issued.
\<close>

theorem C7_config_abort:
  assumes "open_result cfg = Some FileNotFoundError \<or>
           (open_result cfg = None \<and> load_result cfg = Inr (PDict items) \<and>
            (map_of items ''device_id'' = None \<or> map_of items ''api_key'' = None))"
  shows "main cfg envs =
           (ReturnedEarly,
            [Print (if open_result cfg = None then ConfigMustContain else PleaseCreateConfig)])"
  using assms by (auto simp add: main_def main_except_def split: option.splits)

theorem C7_config_abort_witness:
  "main \<lparr>open_result = Some FileNotFoundError, load_result = Inl FileNotFoundError\<rparr>
        [sample_env 0 (PFloat (Finite 70000))]
     = (ReturnedEarly, [Print PleaseCreateConfig])
   \<and> main \<lparr>open_result = None, load_result = Inr (PDict [(''device_id'', PStr ''dev'')])\<rparr>
        [sample_env 0 (PFloat (Finite 70000))]
     = (ReturnedEarly, [Print ConfigMustContain])
   \<and> main \<lparr>open_result = None, load_result = Inr (PDict [(''api_key'', PStr ''key'')])\<rparr>
        [sample_env 0 (PFloat (Finite 70000))]
     = (ReturnedEarly, [Print ConfigMustContain])"
  using C7_config_abort
          [of "\<lparr>open_result = Some FileNotFoundError, load_result = Inl FileNotFoundError\<rparr>"]
        C7_config_abort
          [of "\<lparr>open_result = None, load_result = Inr (PDict [(''device_id'', PStr ''dev'')])\<rparr>"
              "[(''device_id'', PStr ''dev'')]"]
        C7_config_abort
          [of "\<lparr>open_result = None, load_result = Inr (PDict [(''api_key'', PStr ''key'')])\<rparr>"
              "[(''api_key'', PStr ''key'')]"]
  by simp

text \<open>
  Claim C10. When the configuration file opens but \<open>json.load\<close> raises
  \<open>JSONDecodeError\<close>, neither handler of \<open>main\<close> applies: the exception leaves
  \<open>main\<close> uncaught and nothing is printed.
\<close>

theorem C10_invalid_json:
  assumes "open_result cfg = None" and "load_result cfg = Inl JSONDecodeError"
  shows "main cfg envs = (Uncaught JSONDecodeError, [])"
  using assms by (simp add: main_def main_except_def)

theorem C10_invalid_json_witness:
  "main \<lparr>open_result = None, load_result = Inl JSONDecodeError\<rparr>
        [sample_env 0 (PFloat (Finite 70000))]
     = (Uncaught JSONDecodeError, [])"
  using C10_invalid_json [of "\<lparr>open_result = None, load_result = Inl JSONDecodeError\<rparr>"]
  by simp

section \<open>Facts about the three methods\<close>

lemma get_bitcoin_price_none:
  assumes "get_bitcoin_price self env = (Inr PNone, self1, evs)"
  shows "(\<exists>c. evs = [Get COINDESK_PRICE_URL, Print (FailedFetchStatus c)]) \<or>
         (\<exists>e. evs = [Get COINDESK_PRICE_URL, Print (ErrorFetching e)])"
  using assms
  by (auto simp add: get_bitcoin_price_def fetch_except_def cache_valid_def Let_def
      split: if_splits sum.splits)

lemma get_frame:
  assumes "get_bitcoin_price self env = (r, self1, evs)"
  shows "device_id self1 = device_id self \<and> api_key self1 = api_key self \<and>
         cache_ttl self1 = cache_ttl self"
  using assms
  by (auto simp add: get_bitcoin_price_def fetch_except_def Let_def split: if_splits sum.splits)

lemma get_status:
  assumes "\<not> cache_valid self (now env)" and "get_result env = Inr response"
    and "status_code response \<noteq> 200"
  shows "get_bitcoin_price self env =
           (Inr PNone, self,
            [Get COINDESK_PRICE_URL, Print (FailedFetchStatus (status_code response))])"
  using assms by (simp add: get_bitcoin_price_def)

lemma read_price_document: "read_price (price_response v) = Inr v"
  by (simp add: read_price_def price_response_def price_document_def)

lemma init_not_cached: "\<not> cache_valid (init d k) t"
  by (simp add: cache_valid_def init_def)

lemma get_fresh_value:
  assumes "\<not> cache_valid self t" and "format_comma_2f v = Inr ()"
  shows "get_bitcoin_price self (sample_env t v)
     = (Inr v, self\<lparr>last_price := v, last_update := Some t\<rparr>,
        [Get COINDESK_PRICE_URL, Print (FetchedNewPrice v)])"
  using assms
  by (simp add: get_bitcoin_price_def sample_env_def read_price_document)
     (simp add: price_response_def)

lemma get_fresh:
  "get_bitcoin_price (init d k) (sample_env t (PFloat x))
     = (Inr (PFloat x), (init d k)\<lparr>last_price := PFloat x, last_update := Some t\<rparr>,
        [Get COINDESK_PRICE_URL, Print (FetchedNewPrice (PFloat x))])"
  by (simp add: get_bitcoin_price_def cache_valid_def init_def sample_env_def
      price_response_def price_document_def read_price_def)

lemma get_with_push [simp]:
  "get_bitcoin_price self (with_push r env) = get_bitcoin_price self env"
  by (simp add: get_bitcoin_price_def with_push_def Let_def cong: sum.case_cong if_cong)

lemma get_with_render [simp]:
  "get_bitcoin_price self (with_render r env) = get_bitcoin_price self env"
  by (simp add: get_bitcoin_price_def with_render_def Let_def cong: sum.case_cong if_cong)

lemma get_with_sleep [simp]:
  "get_bitcoin_price self (with_sleep r env) = get_bitcoin_price self env"
  by (simp add: get_bitcoin_price_def with_sleep_def Let_def cong: sum.case_cong if_cong)

lemma create_webp_none:
  assumes "get_bitcoin_price self env = (Inr PNone, self1, evs)"
  shows "create_webp self env = (Inr None, self1, evs)"
  using assms by (simp add: create_webp_def)

lemma create_webp_request:
  assumes "get_bitcoin_price self env = (Inr price, self1, evs)"
    and "price \<noteq> PNone" and "py_int (int_of_str env) price = Inr n"
  shows "\<exists>r evs1. create_webp self env =
           (r, self1, evs @ Post PIXLET_RENDER_URL [] (Data (render_code n)) # evs1)"
  using assms by (auto simp add: create_webp_def Let_def split: sum.splits)

lemma create_webp_ok:
  assumes "get_bitcoin_price self env = (Inr price, self1, evs)"
    and "price \<noteq> PNone" and "py_int (int_of_str env) price = Inr n"
    and "render_result env = Inr response" and "status_code response = 200"
  shows "create_webp self env =
           (Inr (Some (content response)), self1,
            evs @ [Post PIXLET_RENDER_URL [] (Data (render_code n))])"
  using assms by (simp add: create_webp_def Let_def)

lemma create_webp_get:
  assumes "create_webp self env = (r, self1, evs)"
  shows "\<exists>r0 evs0. get_bitcoin_price self env = (r0, self1, evs0)"
  using assms
  by (cases "get_bitcoin_price self env")
     (auto simp add: create_webp_def Let_def split: sum.splits if_splits)

lemma create_webp_some:
  assumes "create_webp self env = (Inr (Some bytes), self1, evs)"
  shows "\<exists>response. render_result env = Inr response \<and> status_code response = 200 \<and>
           content response = bytes"
  using assms
  by (cases "get_bitcoin_price self env")
     (auto simp add: create_webp_def Let_def split: sum.splits if_splits)

lemma create_with_push [simp]:
  "create_webp self (with_push r env) = create_webp self env"
  using get_with_push [of self r env]
  by (simp add: create_webp_def with_push_def Let_def
      cong: sum.case_cong if_cong prod.case_cong)

lemma create_sample:
  "create_webp (init d k) (sample_env t (PFloat (Finite x)))
     = (Inr (Some ''RIFF''),
        (init d k)\<lparr>last_price := PFloat (Finite x), last_update := Some t\<rparr>,
        [Get COINDESK_PRICE_URL, Print (FetchedNewPrice (PFloat (Finite x))),
         Post PIXLET_RENDER_URL [] (Data (render_code (py_trunc x)))])"
proof -
  have "create_webp (init d k) (sample_env t (PFloat (Finite x)))
        = (Inr (Some (content (plain_response 200 ''RIFF''))),
           (init d k)\<lparr>last_price := PFloat (Finite x), last_update := Some t\<rparr>,
           [Get COINDESK_PRICE_URL, Print (FetchedNewPrice (PFloat (Finite x)))]
           @ [Post PIXLET_RENDER_URL [] (Data (render_code (py_trunc x)))])"
    by (rule create_webp_ok [OF get_fresh])
       (simp_all add: sample_env_def plain_response_def)
  then show ?thesis by (simp add: plain_response_def)
qed

text \<open>Values used by the examples.\<close>

lemma py_trunc_42999: "py_trunc (5909861255400653 / 137438953472) = 42999"
  unfolding py_trunc_def by (simp add: floor_eq_iff)

lemma py_trunc_100: "py_trunc 100 = 100"
  by (simp add: py_trunc_def)

lemma py_trunc_67890: "py_trunc (583171690243031 / 8589934592) = 67890"
  unfolding py_trunc_def by (simp add: floor_eq_iff)

lemma str_int_42999: "str_int 42999 = ''42999''"
  by (simp add: str_int_def str_nat.simps digit_char_def)

lemma str_int_100: "str_int 100 = ''100''"
  by (simp add: str_int_def str_nat.simps digit_char_def)

lemma str_int_67890: "str_int 67890 = ''67890''"
  by (simp add: str_int_def str_nat.simps digit_char_def)

lemma b64encode_RIFF: "b64encode ''RIFF'' = ''UklGRg==''"
  by (simp add: b64_char_def Let_def)

section \<open>The label of the rendered price\<close>

text \<open>
  Claim C3, as the code has it. For every finite float price that \<open>create_webp\<close> gets,
  the script it posts to the renderer is the fixed text around the argument of
  \<open>render.Text\<close>, and that argument is a dollar sign followed by the decimal digits of
  the price truncated toward zero (the floor of a non-negative price, the ceiling of a
  negative one): nothing is rounded.
\<close>

theorem C3_label:
  assumes "get_bitcoin_price self env = (Inr (PFloat (Finite x)), self1, evs)"
  shows "(\<exists>r evs1. create_webp self env =
            (r, self1,
             evs @ Post PIXLET_RENDER_URL []
                     (Data (render_head @ (CHR ''$'' # str_int (py_trunc x)) @ render_tail)) # evs1))
         \<and> py_trunc x = (if x < 0 then - \<lfloor>- x\<rfloor> else \<lfloor>x\<rfloor>)"
proof
  have "py_int (int_of_str env) (PFloat (Finite x)) = Inr (py_trunc x)" by simp
  from create_webp_request [OF assms _ this]
  show "\<exists>r evs1. create_webp self env =
            (r, self1,
             evs @ Post PIXLET_RENDER_URL []
                     (Data (render_head @ (CHR ''$'' # str_int (py_trunc x)) @ render_tail)) # evs1)"
    by (simp add: render_code_def text_label_def)
  show "py_trunc x = (if x < 0 then - \<lfloor>- x\<rfloor> else \<lfloor>x\<rfloor>)"
    by (simp add: py_trunc_def ceiling_def)
qed

text \<open>
  The double nearest to 42999.9 gives the label \<open>$42999\<close>, and 100.0 gives \<open>$100\<close>.
\<close>

theorem C3_label_witness:
  "(\<exists>r evs1. create_webp (init ''dev'' ''key'')
                 (sample_env 0 (PFloat (Finite (5909861255400653 / 137438953472)))) =
       (r, (init ''dev'' ''key'')\<lparr>last_price := PFloat (Finite (5909861255400653 / 137438953472)),
                                 last_update := Some 0\<rparr>,
        [Get COINDESK_PRICE_URL,
         Print (FetchedNewPrice (PFloat (Finite (5909861255400653 / 137438953472))))] @
        Post PIXLET_RENDER_URL [] (Data (render_head @ ''$42999'' @ render_tail)) # evs1))
   \<and> (\<exists>r evs1. create_webp (init ''dev'' ''key'') (sample_env 0 (PFloat (Finite 100))) =
       (r, (init ''dev'' ''key'')\<lparr>last_price := PFloat (Finite 100), last_update := Some 0\<rparr>,
        [Get COINDESK_PRICE_URL, Print (FetchedNewPrice (PFloat (Finite 100)))] @
        Post PIXLET_RENDER_URL [] (Data (render_head @ ''$100'' @ render_tail)) # evs1))"
  using C3_label [OF get_fresh [of "''dev''" "''key''" 0 "Finite (5909861255400653 / 137438953472)"]]
        C3_label [OF get_fresh [of "''dev''" "''key''" 0 "Finite 100"]]
  by (simp add: py_trunc_42999 py_trunc_100 str_int_42999 str_int_100)

text \<open>
  Claim C3 as stated fails: for the price 42999.9 the label is \<open>$42999\<close>, with the
  dollar sign, not \<open>42999\<close>.
\<close>

theorem C3_label_counterexample:
  "create_webp (init ''dev'' ''key'')
       (sample_env 0 (PFloat (Finite (5909861255400653 / 137438953472))))
     = (Inr (Some ''RIFF''),
        (init ''dev'' ''key'')\<lparr>last_price := PFloat (Finite (5909861255400653 / 137438953472)),
                                 last_update := Some 0\<rparr>,
        [Get COINDESK_PRICE_URL,
         Print (FetchedNewPrice (PFloat (Finite (5909861255400653 / 137438953472)))),
         Post PIXLET_RENDER_URL [] (Data (render_head @ ''$42999'' @ render_tail))])
   \<and> ''$42999'' \<noteq> ''42999''"
proof -
  have "create_webp (init ''dev'' ''key'')
          (sample_env 0 (PFloat (Finite (5909861255400653 / 137438953472))))
        = (Inr (Some (content (plain_response 200 ''RIFF''))),
           (init ''dev'' ''key'')\<lparr>last_price := PFloat (Finite (5909861255400653 / 137438953472)),
                                    last_update := Some 0\<rparr>,
           [Get COINDESK_PRICE_URL,
            Print (FetchedNewPrice (PFloat (Finite (5909861255400653 / 137438953472))))]
           @ [Post PIXLET_RENDER_URL [] (Data (render_code 42999))])"
    by (rule create_webp_ok [OF get_fresh])
       (simp_all add: sample_env_def plain_response_def py_trunc_42999)
  then show ?thesis
    by (simp add: plain_response_def render_code_def text_label_def str_int_42999)
qed

section \<open>What a failed fetch does to the cache\<close>

text \<open>
  Claim C4 fails on this input. The cache holds 50000.0, fetched at time 0. Five minutes
  later the price service answers 200 with a document whose \<open>rate_float\<close> is
  \<open>null\<close>. Lines 51-52 store the value and the time before line 53 formats the value;
  formatting \<open>None\<close> raises \<open>TypeError\<close>, the handler prints it and the method
  returns \<open>None\<close>: the fetch has failed, and both fields have changed.
\<close>

theorem C4_failed_fetch_mutates:
  "get_bitcoin_price (cached_tracker (PFloat (Finite 50000)) 0) (sample_env 300000000 PNone)
     = (Inr PNone, cached_tracker PNone 300000000,
        [Get COINDESK_PRICE_URL, Print (ErrorFetching TypeError)])"
  by (simp add: get_bitcoin_price_def cache_valid_def cached_tracker_def init_def sample_env_def
      price_response_def price_document_def read_price_def fetch_except_def is_Exception_def)

section \<open>The push request\<close>

text \<open>
  Claim C5, as the code has it. When \<open>create_webp\<close> returns a non-empty byte string,
  these bytes are the body of the renderer's answer of status 200, and \<open>push_to_tidbyt\<close>
  posts to the device URL, with the headers \<open>Authorization: Bearer\<close> and the API key and
  \<open>Content-Type: application/json\<close>, the JSON object whose \<open>image\<close> is the base64
  encoding of these bytes, whose \<open>installation_id\<close> is \<open>bitcoin-tracker\<close> and whose
  \<open>background\<close> is true. It returns \<open>True\<close> exactly when the answer has status 200;
  for another status it prints the status and the text of the answer and returns
  \<open>False\<close>; when the call raises an \<open>Exception\<close> it prints it and returns \<open>False\<close>.
\<close>

theorem C5_push:
  assumes "create_webp self env = (Inr (Some bytes), self1, evs)" and "bytes \<noteq> []"
  shows "(\<exists>response. render_result env = Inr response \<and> status_code response = 200 \<and>
            content response = bytes)
       \<and> push_to_tidbyt self env =
           (case push_result env of
              Inl e \<Rightarrow>
                if is_Exception e
                then (Inr False, self1, evs @ [push_request self bytes, Print (ErrorPushing e)])
                else (Inl e, self1, evs @ [push_request self bytes])
            | Inr response \<Rightarrow>
                if status_code response = 200
                then (Inr True, self1, evs @ [push_request self bytes, Print PushedToTidbyt])
                else (Inr False, self1,
                      evs @ [push_request self bytes,
                             Print (FailedPushStatus (status_code response)),
                             Print (PushResponse (resp_text response))]))"
proof
  show "\<exists>response. render_result env = Inr response \<and> status_code response = 200 \<and>
            content response = bytes"
    using assms(1) by (rule create_webp_some)
  from create_webp_get [OF assms(1)]
  obtain r0 evs0 where g: "get_bitcoin_price self env = (r0, self1, evs0)"
    by blast
  have d: "device_id self1 = device_id self" and k: "api_key self1 = api_key self"
    using get_frame [OF g] by simp_all
  show "push_to_tidbyt self env =
           (case push_result env of
              Inl e \<Rightarrow>
                if is_Exception e
                then (Inr False, self1, evs @ [push_request self bytes, Print (ErrorPushing e)])
                else (Inl e, self1, evs @ [push_request self bytes])
            | Inr response \<Rightarrow>
                if status_code response = 200
                then (Inr True, self1, evs @ [push_request self bytes, Print PushedToTidbyt])
                else (Inr False, self1,
                      evs @ [push_request self bytes,
                             Print (FailedPushStatus (status_code response)),
                             Print (PushResponse (resp_text response))]))"
    by (cases "push_result env")
       (simp_all add: push_to_tidbyt_def assms d k push_request_def Let_def)
qed

text \<open>
  The price 67890.12 is rendered with the label \<open>$67890\<close>; the renderer answers the
  bytes \<open>RIFF\<close>, which are pushed as \<open>UklGRg==\<close>. The device answers 200 in the first
  run and 403 in the second.
\<close>

theorem C5_push_witness:
  "push_to_tidbyt (init ''dev'' ''key'') (sample_env 0 (PFloat (Finite (583171690243031 / 8589934592))))
     = (Inr True,
        (init ''dev'' ''key'')\<lparr>last_price := PFloat (Finite (583171690243031 / 8589934592)),
                                 last_update := Some 0\<rparr>,
        [Get COINDESK_PRICE_URL,
         Print (FetchedNewPrice (PFloat (Finite (583171690243031 / 8589934592)))),
         Post PIXLET_RENDER_URL [] (Data (render_head @ ''$67890'' @ render_tail)),
         Post ''https://api.tidbyt.com/v0/devices/dev/push''
           [(''Authorization'', ''Bearer key''), (''Content-Type'', ''application/json'')]
           (Json (PDict [(''image'', PStr ''UklGRg==''),
                         (''installation_id'', PStr ''bitcoin-tracker''),
                         (''background'', PBool True)])),
         Print PushedToTidbyt])
   \<and> push_to_tidbyt (init ''dev'' ''key'')
        (with_push (Inr (plain_response 403 ''forbidden''))
           (sample_env 0 (PFloat (Finite (583171690243031 / 8589934592)))))
     = (Inr False,
        (init ''dev'' ''key'')\<lparr>last_price := PFloat (Finite (583171690243031 / 8589934592)),
                                 last_update := Some 0\<rparr>,
        [Get COINDESK_PRICE_URL,
         Print (FetchedNewPrice (PFloat (Finite (583171690243031 / 8589934592)))),
         Post PIXLET_RENDER_URL [] (Data (render_head @ ''$67890'' @ render_tail)),
         Post ''https://api.tidbyt.com/v0/devices/dev/push''
           [(''Authorization'', ''Bearer key''), (''Content-Type'', ''application/json'')]
           (Json (PDict [(''image'', PStr ''UklGRg==''),
                         (''installation_id'', PStr ''bitcoin-tracker''),
                         (''background'', PBool True)])),
         Print (FailedPushStatus 403), Print (PushResponse ''forbidden'')])"
proof -
  have ne: "''RIFF'' \<noteq> []" by simp
  have c2: "create_webp (init ''dev'' ''key'')
        (with_push (Inr (plain_response 403 ''forbidden''))
           (sample_env 0 (PFloat (Finite (583171690243031 / 8589934592)))))
     = (Inr (Some ''RIFF''),
        (init ''dev'' ''key'')\<lparr>last_price := PFloat (Finite (583171690243031 / 8589934592)),
                                 last_update := Some 0\<rparr>,
        [Get COINDESK_PRICE_URL,
         Print (FetchedNewPrice (PFloat (Finite (583171690243031 / 8589934592)))),
         Post PIXLET_RENDER_URL [] (Data (render_code (py_trunc (583171690243031 / 8589934592))))])"
    by (simp add: create_sample)
  have c1: "create_webp (init ''dev'' ''key'')
           (sample_env 0 (PFloat (Finite (583171690243031 / 8589934592))))
     = (Inr (Some ''RIFF''),
        (init ''dev'' ''key'')\<lparr>last_price := PFloat (Finite (583171690243031 / 8589934592)),
                                 last_update := Some 0\<rparr>,
        [Get COINDESK_PRICE_URL,
         Print (FetchedNewPrice (PFloat (Finite (583171690243031 / 8589934592)))),
         Post PIXLET_RENDER_URL [] (Data (render_code (py_trunc (583171690243031 / 8589934592))))])"
    by (rule create_sample)
  from C5_push [OF c1 ne] C5_push [OF c2 ne]
  show ?thesis
    by (simp add: push_request_def sample_env_def with_push_def plain_response_def init_def
        TIDBYT_API_URL_def b64_char_def Let_def py_trunc_67890 str_int_67890 render_code_def
        text_label_def)
qed

text \<open>
  Claim C5 as stated fails for a render result that is empty: the renderer answers 200 with
  no bytes, \<open>create_webp\<close> returns them as its result, and \<open>push_to_tidbyt\<close> returns
  \<open>False\<close> without posting anything to the device.
\<close>

theorem C5_push_counterexample:
  "create_webp (init ''dev'' ''key'')
       (with_render (Inr (plain_response 200 [])) (sample_env 0 (PFloat (Finite 70000))))
     = (Inr (Some []),
        (init ''dev'' ''key'')\<lparr>last_price := PFloat (Finite 70000), last_update := Some 0\<rparr>,
        [Get COINDESK_PRICE_URL, Print (FetchedNewPrice (PFloat (Finite 70000))),
         Post PIXLET_RENDER_URL [] (Data (render_code 70000))])
   \<and> push_to_tidbyt (init ''dev'' ''key'')
       (with_render (Inr (plain_response 200 [])) (sample_env 0 (PFloat (Finite 70000))))
     = (Inr False,
        (init ''dev'' ''key'')\<lparr>last_price := PFloat (Finite 70000), last_update := Some 0\<rparr>,
        [Get COINDESK_PRICE_URL, Print (FetchedNewPrice (PFloat (Finite 70000))),
         Post PIXLET_RENDER_URL [] (Data (render_code 70000))])"
proof -
  have g: "get_bitcoin_price (init ''dev'' ''key'')
       (with_render (Inr (plain_response 200 [])) (sample_env 0 (PFloat (Finite 70000))))
     = (Inr (PFloat (Finite 70000)),
        (init ''dev'' ''key'')\<lparr>last_price := PFloat (Finite 70000), last_update := Some 0\<rparr>,
        [Get COINDESK_PRICE_URL, Print (FetchedNewPrice (PFloat (Finite 70000)))])"
    by (simp add: get_fresh)
  have c: "create_webp (init ''dev'' ''key'')
       (with_render (Inr (plain_response 200 [])) (sample_env 0 (PFloat (Finite 70000))))
     = (Inr (Some (content (plain_response 200 []))),
        (init ''dev'' ''key'')\<lparr>last_price := PFloat (Finite 70000), last_update := Some 0\<rparr>,
        [Get COINDESK_PRICE_URL, Print (FetchedNewPrice (PFloat (Finite 70000)))]
        @ [Post PIXLET_RENDER_URL [] (Data (render_code 70000))])"
    by (rule create_webp_ok [OF g])
       (simp_all add: with_render_def sample_env_def plain_response_def py_trunc_def)
  then show ?thesis
    by (simp add: push_to_tidbyt_def plain_response_def)
qed

section \<open>Passes that stop early\<close>

text \<open>
  Claim C6. When \<open>get_bitcoin_price\<close> returns \<open>None\<close>, it has issued the GET request
  and printed why it failed (the status, or the exception); \<open>push_to_tidbyt\<close> returns
  \<open>False\<close> with nothing added to the trace, so no request goes to the renderer or to the
  device; the loop body then prints that it will retry and calls \<open>time.sleep\<close>.
\<close>

theorem C6_fetch_failure:
  assumes "get_bitcoin_price self env = (Inr PNone, self1, evs)"
  shows "(\<exists>m. evs = [Get COINDESK_PRICE_URL, Print m] \<and>
              ((\<exists>c. m = FailedFetchStatus c) \<or> (\<exists>e. m = ErrorFetching e)))
       \<and> push_to_tidbyt self env = (Inr False, self1, evs)
       \<and> (\<exists>r. iteration self update_interval env =
                (r, self1, evs @ [Print FailedWillRetry, Sleep update_interval]))"
proof -
  from get_bitcoin_price_none [OF assms]
  have a: "\<exists>m. evs = [Get COINDESK_PRICE_URL, Print m] \<and>
              ((\<exists>c. m = FailedFetchStatus c) \<or> (\<exists>e. m = ErrorFetching e))"
    by auto
  from create_webp_none [OF assms]
  have p: "push_to_tidbyt self env = (Inr False, self1, evs)"
    by (simp add: push_to_tidbyt_def)
  then have "\<exists>r. iteration self update_interval env =
                (r, self1, evs @ [Print FailedWillRetry, Sleep update_interval])"
    by (simp add: iteration_def Let_def split: option.splits)
  with a p show ?thesis by blast
qed

theorem C6_fetch_failure_witness:
  "push_to_tidbyt (init ''dev'' ''key'')
       (with_get (Inr (plain_response 503 ''unavailable'')) (sample_env 0 (PFloat (Finite 70000))))
     = (Inr False, init ''dev'' ''key'', [Get COINDESK_PRICE_URL, Print (FailedFetchStatus 503)])
   \<and> (\<exists>r. iteration (init ''dev'' ''key'') 300
       (with_get (Inr (plain_response 503 ''unavailable'')) (sample_env 0 (PFloat (Finite 70000))))
     = (r, init ''dev'' ''key'',
        [Get COINDESK_PRICE_URL, Print (FailedFetchStatus 503), Print FailedWillRetry, Sleep 300]))"
proof -
  have g: "get_bitcoin_price (init ''dev'' ''key'')
       (with_get (Inr (plain_response 503 ''unavailable'')) (sample_env 0 (PFloat (Finite 70000))))
     = (Inr PNone, init ''dev'' ''key'',
        [Get COINDESK_PRICE_URL, Print (FailedFetchStatus 503)])"
    using get_status [of "init ''dev'' ''key''"
        "with_get (Inr (plain_response 503 ''unavailable'')) (sample_env 0 (PFloat (Finite 70000)))"
        "plain_response 503 ''unavailable''"]
    by (simp add: init_not_cached with_get_def plain_response_def)
  from C6_fetch_failure [OF g, of 300] show ?thesis by simp
qed

text \<open>
  Claim C9. When the price is there and the renderer answers 200 with an empty body,
  \<open>create_webp\<close> returns the empty byte string, \<open>push_to_tidbyt\<close> returns \<open>False\<close>
  after the render request alone (no request goes to the device), and the loop body
  prints that it will retry and sleeps.
\<close>

theorem C9_empty_body:
  assumes "get_bitcoin_price self env = (Inr price, self1, evs)"
    and "price \<noteq> PNone" and "py_int (int_of_str env) price = Inr n"
    and "render_result env = Inr response" and "status_code response = 200"
    and "content response = []"
  shows "create_webp self env =
           (Inr (Some []), self1, evs @ [Post PIXLET_RENDER_URL [] (Data (render_code n))])
       \<and> push_to_tidbyt self env =
           (Inr False, self1, evs @ [Post PIXLET_RENDER_URL [] (Data (render_code n))])
       \<and> (\<exists>r. iteration self update_interval env =
           (r, self1, evs @ [Post PIXLET_RENDER_URL [] (Data (render_code n)),
                             Print FailedWillRetry, Sleep update_interval]))"
proof -
  from create_webp_ok [OF assms(1-5)] assms(6)
  have c: "create_webp self env =
           (Inr (Some []), self1, evs @ [Post PIXLET_RENDER_URL [] (Data (render_code n))])"
    by simp
  then have p: "push_to_tidbyt self env =
           (Inr False, self1, evs @ [Post PIXLET_RENDER_URL [] (Data (render_code n))])"
    by (simp add: push_to_tidbyt_def)
  then have "\<exists>r. iteration self update_interval env =
           (r, self1, evs @ [Post PIXLET_RENDER_URL [] (Data (render_code n)),
                             Print FailedWillRetry, Sleep update_interval])"
    by (simp add: iteration_def Let_def split: option.splits)
  with c p show ?thesis by blast
qed

theorem C9_empty_body_witness:
  "push_to_tidbyt (init ''dev'' ''key'')
       (with_render (Inr (plain_response 200 [])) (sample_env 0 (PInt 65000)))
     = (Inr False, (init ''dev'' ''key'')\<lparr>last_price := PInt 65000, last_update := Some 0\<rparr>,
        [Get COINDESK_PRICE_URL, Print (FetchedNewPrice (PInt 65000)),
         Post PIXLET_RENDER_URL [] (Data (render_code 65000))])
   \<and> (\<exists>r. iteration (init ''dev'' ''key'') 300
       (with_render (Inr (plain_response 200 [])) (sample_env 0 (PInt 65000)))
     = (r, (init ''dev'' ''key'')\<lparr>last_price := PInt 65000, last_update := Some 0\<rparr>,
        [Get COINDESK_PRICE_URL, Print (FetchedNewPrice (PInt 65000)),
         Post PIXLET_RENDER_URL [] (Data (render_code 65000)),
         Print FailedWillRetry, Sleep 300]))"
proof -
  have g: "get_bitcoin_price (init ''dev'' ''key'')
       (with_render (Inr (plain_response 200 [])) (sample_env 0 (PInt 65000)))
     = (Inr (PInt 65000), (init ''dev'' ''key'')\<lparr>last_price := PInt 65000, last_update := Some 0\<rparr>,
        [Get COINDESK_PRICE_URL, Print (FetchedNewPrice (PInt 65000))])"
    by (simp add: get_fresh_value init_not_cached)
  have "py_int (int_of_str (with_render (Inr (plain_response 200 [])) (sample_env 0 (PInt 65000))))
          (PInt 65000) = Inr 65000"
    by simp
  from C9_empty_body [OF g _ this, of "plain_response 200 []" 300]
  show ?thesis by (simp add: with_render_def plain_response_def)
qed

section \<open>The sign of the cached price\<close>

text \<open>
  Only \<open>get_bitcoin_price\<close> writes the two fields of the cache: the tracker that
  \<open>push_to_tidbyt\<close> or the loop body leaves behind is the one \<open>get_bitcoin_price\<close> left.
\<close>

lemma push_get:
  assumes "push_to_tidbyt self env = (r, self1, evs)"
  shows "\<exists>r0 evs0. get_bitcoin_price self env = (r0, self1, evs0)"
proof (cases "create_webp self env")
  case (fields w s1 evs1)
  with assms have "s1 = self1"
    by (auto simp add: push_to_tidbyt_def Let_def split: sum.splits option.splits if_splits)
  with fields show ?thesis by (auto dest: create_webp_get)
qed

lemma iteration_get:
  assumes "iteration self update_interval env = (r, self1, evs)"
  shows "\<exists>r0 evs0. get_bitcoin_price self env = (r0, self1, evs0)"
proof (cases "push_to_tidbyt self env")
  case (fields b s1 evs1)
  with assms have "s1 = self1"
    by (auto simp add: iteration_def Let_def split: sum.splits option.splits if_splits)
  with fields show ?thesis by (auto dest: push_get)
qed

text \<open>
  When no price is read from the service (the call raises, the status is not 200, the
  body is not JSON or lacks the path), the tracker is left as it was, by
  \<open>get_bitcoin_price\<close> and so by \<open>push_to_tidbyt\<close>.
\<close>

lemma get_unchanged:
  assumes "api_price env = None"
  shows "fst (snd (get_bitcoin_price self env)) = self"
  using assms
  by (auto simp add: get_bitcoin_price_def api_price_def fetch_except_def
      split: sum.splits if_splits)

lemma push_unchanged:
  assumes "api_price env = None"
  shows "fst (snd (push_to_tidbyt self env)) = self"
proof (cases "push_to_tidbyt self env")
  case (fields r self1 evs)
  from push_get [OF this] get_unchanged [OF assms, of self] fields
  show ?thesis by auto
qed

lemma get_price_inv:
  assumes "price_inv self" and "api_positive env"
    and "get_bitcoin_price self env = (r, self1, evs)"
  shows "price_inv self1"
proof (cases "cache_valid self (now env)")
  case True
  with assms show ?thesis by (simp add: get_bitcoin_price_def)
next
  case False
  show ?thesis
  proof (cases "api_price env")
    case None
    with False assms(3) have "self1 = self"
      by (auto simp add: get_bitcoin_price_def api_price_def fetch_except_def
          split: sum.splits if_splits)
    with assms(1) show ?thesis by simp
  next
    case (Some v)
    with assms(2) have "positive v" by (simp add: api_positive_def)
    moreover from Some False assms(3) have "last_price self1 = v"
      by (auto simp add: get_bitcoin_price_def api_price_def fetch_except_def Let_def
          split: sum.splits if_splits)
    ultimately show ?thesis by (simp add: price_inv_def)
  qed
qed

lemma iteration_price_inv:
  assumes "price_inv self" and "api_positive env"
    and "iteration self update_interval env = (r, self1, evs)"
  shows "price_inv self1"
  using iteration_get [OF assms(3)] get_price_inv [OF assms(1,2)] by blast

lemma while_true_price_inv:
  assumes "list_all api_positive envs" and "price_inv self"
  shows "price_inv (fst (snd (while_true self update_interval envs)))"
  using assms
proof (induction envs arbitrary: self)
  case Nil
  then show ?case by simp
next
  case (Cons env envs)
  obtain r self1 evs where it: "iteration self update_interval env = (r, self1, evs)"
    by (cases "iteration self update_interval env")
  with Cons.prems have p1: "price_inv self1"
    by (auto intro: iteration_price_inv)
  show ?case
  proof (cases r)
    case (Inl e)
    with it p1 show ?thesis by simp
  next
    case (Inr u)
    from Cons.IH [OF _ p1] Cons.prems(1)
    have "price_inv (fst (snd (while_true self1 update_interval envs)))" by simp
    with it Inr show ?thesis by (auto split: prod.splits)
  qed
qed

lemma run_state:
  "fst (snd (run_continuous_updates self update_interval envs))
     = fst (snd (while_true self update_interval envs))"
  by (cases "while_true self update_interval envs")
     (simp add: run_continuous_updates_def split: option.splits)

text \<open>
  Claim C8, as the code has it. The code never compares the price with zero. If the cached
  price is absent or greater than zero, and in every pass the price that the service
  answers (when it answers one) is greater than zero, then after any number of passes of
  the loop the cached price is absent or greater than zero.
\<close>

theorem C8_price_positive:
  assumes "price_inv self" and "list_all api_positive envs"
  shows "price_inv (fst (snd (run_continuous_updates self update_interval envs)))"
  using while_true_price_inv [OF assms(2,1)] by (simp add: run_state)

theorem C8_price_positive_witness:
  "price_inv (fst (snd (run_continuous_updates (init ''dev'' ''key'') 300
       [sample_env 0 (PFloat (Finite 70000)), sample_env 300000000 (PInt 65000)])))"
proof -
  have "price_inv (init ''dev'' ''key'')"
    by (simp add: price_inv_def init_def)
  moreover have "list_all api_positive
       [sample_env 0 (PFloat (Finite 70000)), sample_env 300000000 (PInt 65000)]"
    by (simp add: api_positive_def api_price_def sample_env_def read_price_document)
  ultimately show ?thesis by (rule C8_price_positive)
qed

text \<open>
  Claim C8 as stated fails: the cache is empty, the service answers the price -1.0, and
  \<open>get_bitcoin_price\<close> stores and returns it.
\<close>

theorem C8_price_positive_counterexample:
  "price_inv (init ''dev'' ''key'')
   \<and> get_bitcoin_price (init ''dev'' ''key'') (sample_env 0 (PFloat (Finite (- 1))))
       = (Inr (PFloat (Finite (- 1))),
          (init ''dev'' ''key'')\<lparr>last_price := PFloat (Finite (- 1)), last_update := Some 0\<rparr>,
          [Get COINDESK_PRICE_URL, Print (FetchedNewPrice (PFloat (Finite (- 1))))])
   \<and> \<not> price_inv ((init ''dev'' ''key'')\<lparr>last_price := PFloat (Finite (- 1)),
                                            last_update := Some 0\<rparr>)"
proof -
  have a: "price_inv (init ''dev'' ''key'')"
    by (simp add: price_inv_def init_def)
  have b: "\<not> price_inv ((init ''dev'' ''key'')\<lparr>last_price := PFloat (Finite (- 1)),
                                                last_update := Some 0\<rparr>)"
    by (simp add: price_inv_def)
  from a b show ?thesis by (simp add: get_fresh)
qed

section \<open>What ends the loop\<close>

text \<open>
  Which exceptions the builtins raise, and where a \<open>KeyboardInterrupt\<close> can come from:
  none of the methods raises it unless one of the calls to the outside does.
\<close>

lemma has_int_py_int:
  assumes "has_int v"
  shows "\<exists>n. py_int conv v = Inr n"
proof (cases v)
  case (PFloat x)
  with assms show ?thesis by (cases x) simp_all
qed (use assms in simp_all)

lemma py_int_exn:
  assumes "py_int conv v = Inl e"
  shows "e \<noteq> KeyboardInterrupt"
proof (cases v)
  case (PFloat x)
  with assms show ?thesis by (cases x) auto
qed (use assms in \<open>auto split: option.splits\<close>)

lemma subscript_exn:
  assumes "subscript v k = Inl e"
  shows "e \<noteq> KeyboardInterrupt"
  using assms by (cases v) (auto split: option.splits)

lemma format_exn:
  assumes "format_comma_2f v = Inl e"
  shows "e \<noteq> KeyboardInterrupt"
  using assms by (cases v) (auto split: if_splits)

lemma read_price_exn:
  assumes "read_price response = Inl e" and "resp_json response \<noteq> Inl KeyboardInterrupt"
  shows "e \<noteq> KeyboardInterrupt"
  using assms
  by (auto simp add: read_price_def split: sum.splits dest: subscript_exn)

lemma get_no_interrupt:
  assumes "interrupt_free env"
  shows "fst (get_bitcoin_price self env) \<noteq> Inl KeyboardInterrupt"
proof (cases "cache_valid self (now env)")
  case True
  then show ?thesis by (simp add: get_bitcoin_price_def)
next
  case False
  show ?thesis
  proof (cases "get_result env")
    case (Inl e)
    with assms have "e \<noteq> KeyboardInterrupt" by (simp add: interrupt_free_def)
    with False Inl show ?thesis
      by (simp add: get_bitcoin_price_def fetch_except_def is_Exception_def)
  next
    case (Inr response)
    with assms have j: "resp_json response \<noteq> Inl KeyboardInterrupt"
      by (simp add: interrupt_free_def)
    show ?thesis
    proof (cases "read_price response")
      case (Inl e)
      with j have "e \<noteq> KeyboardInterrupt" by (auto dest: read_price_exn)
      with False Inr Inl show ?thesis
        by (simp add: get_bitcoin_price_def fetch_except_def is_Exception_def)
    next
      case price: (Inr price)
      show ?thesis
      proof (cases "format_comma_2f price")
        case (Inl e)
        then have "e \<noteq> KeyboardInterrupt" by (rule format_exn)
        with False Inr price Inl show ?thesis
          by (simp add: get_bitcoin_price_def fetch_except_def is_Exception_def Let_def)
      next
        case u: (Inr u)
        with False Inr price show ?thesis
          by (simp add: get_bitcoin_price_def Let_def)
      qed
    qed
  qed
qed

lemma create_no_interrupt:
  assumes "interrupt_free env"
  shows "fst (create_webp self env) \<noteq> Inl KeyboardInterrupt"
proof (cases "get_bitcoin_price self env")
  case (fields r self1 evs)
  with get_no_interrupt [OF assms, of self] have r: "r \<noteq> Inl KeyboardInterrupt" by simp
  from assms have "render_result env \<noteq> Inl KeyboardInterrupt"
    by (simp add: interrupt_free_def)
  with fields r show ?thesis
    by (auto simp add: create_webp_def Let_def is_Exception_def
        split: sum.splits dest: py_int_exn)
qed

lemma push_no_interrupt:
  assumes "interrupt_free env"
  shows "fst (push_to_tidbyt self env) \<noteq> Inl KeyboardInterrupt"
proof (cases "create_webp self env")
  case (fields r self1 evs)
  with create_no_interrupt [OF assms, of self] have r: "r \<noteq> Inl KeyboardInterrupt" by simp
  from assms have "push_result env \<noteq> Inl KeyboardInterrupt"
    by (simp add: interrupt_free_def)
  with fields r show ?thesis
    by (auto simp add: push_to_tidbyt_def Let_def is_Exception_def
        split: sum.splits option.splits)
qed

lemma iteration_no_interrupt:
  assumes "interrupt_free env"
  shows "fst (iteration self update_interval env) \<noteq> Inl KeyboardInterrupt"
proof (cases "push_to_tidbyt self env")
  case (fields r self1 evs)
  with push_no_interrupt [OF assms, of self] have r: "r \<noteq> Inl KeyboardInterrupt" by simp
  from assms have "sleep_result env \<noteq> Some KeyboardInterrupt"
    by (simp add: interrupt_free_def)
  with fields r show ?thesis
    by (auto simp add: iteration_def Let_def split: sum.splits option.splits)
qed

lemma while_true_no_interrupt:
  assumes "list_all interrupt_free envs"
  shows "fst (while_true self update_interval envs) \<noteq> Some KeyboardInterrupt"
  using assms
proof (induction envs arbitrary: self)
  case Nil
  then show ?case by simp
next
  case (Cons env envs)
  obtain r self1 evs where it: "iteration self update_interval env = (r, self1, evs)"
    by (cases "iteration self update_interval env")
  from Cons.prems have "interrupt_free env" by simp
  from iteration_no_interrupt [OF this, of self update_interval] it
  have r: "r \<noteq> Inl KeyboardInterrupt" by simp
  from Cons.IH [of self1] Cons.prems
  have "fst (while_true self1 update_interval envs) \<noteq> Some KeyboardInterrupt" by simp
  with it r show ?case by (auto split: sum.splits prod.splits)
qed

text \<open>
  A benign pass completes: each of the three methods returns, whatever the services
  answer, and the pass ends in the one call of \<open>time.sleep\<close>.
\<close>

lemma get_int_safe:
  assumes "int_safe (last_price self)" and "price_safe env"
    and "get_bitcoin_price self env = (Inr v, self1, evs)"
  shows "int_safe v \<and> int_safe (last_price self1)"
proof (cases "cache_valid self (now env)")
  case True
  with assms show ?thesis by (auto simp add: get_bitcoin_price_def)
next
  case False
  show ?thesis
  proof (cases "api_price env")
    case None
    with False assms(3) have "self1 = self \<and> v = PNone"
      by (auto simp add: get_bitcoin_price_def api_price_def fetch_except_def
          split: sum.splits if_splits)
    with assms(1) show ?thesis by (simp add: int_safe_def)
  next
    case (Some p)
    with assms(2) have "int_safe p" by (simp add: price_safe_def)
    moreover from Some False assms(3) have "last_price self1 = p \<and> (v = p \<or> v = PNone)"
      by (auto simp add: get_bitcoin_price_def api_price_def fetch_except_def Let_def
          split: sum.splits if_splits)
    ultimately show ?thesis by (auto simp add: int_safe_def)
  qed
qed

lemma get_no_sleep:
  assumes "get_bitcoin_price self env = (r, self1, evs)"
  shows "count_list evs (Sleep i) = 0"
  using assms
  by (auto simp add: get_bitcoin_price_def fetch_except_def Let_def
      split: sum.splits if_splits)

lemma create_no_sleep:
  assumes "create_webp self env = (r, self1, evs)"
  shows "count_list evs (Sleep i) = 0"
proof (cases "get_bitcoin_price self env")
  case (fields r0 s0 evs0)
  from get_no_sleep [OF fields] have "count_list evs0 (Sleep i) = 0" .
  with fields assms show ?thesis
    by (auto simp add: create_webp_def Let_def split: sum.splits if_splits)
qed

lemma push_no_sleep:
  assumes "push_to_tidbyt self env = (r, self1, evs)"
  shows "count_list evs (Sleep i) = 0"
proof (cases "create_webp self env")
  case (fields r0 s0 evs0)
  from create_no_sleep [OF fields] have "count_list evs0 (Sleep i) = 0" .
  with fields assms show ?thesis
    by (auto simp add: push_to_tidbyt_def Let_def split: sum.splits option.splits if_splits)
qed

lemma create_returns:
  assumes "get_bitcoin_price self env = (Inr v, self1, evs)" and "int_safe v"
    and "render_result env \<noteq> Inl KeyboardInterrupt"
  shows "\<exists>w evs1. create_webp self env = (Inr w, self1, evs1)"
proof (cases "v = PNone")
  case True
  with assms(1) show ?thesis by (simp add: create_webp_def)
next
  case False
  with assms(2) have "has_int v" by (simp add: int_safe_def)
  then obtain n where "py_int (int_of_str env) v = Inr n"
    using has_int_py_int by blast
  with assms(1,3) False show ?thesis
    by (cases "render_result env")
       (auto simp add: create_webp_def Let_def is_Exception_def)
qed

lemma push_returns:
  assumes "create_webp self env = (Inr w, self1, evs)"
    and "push_result env \<noteq> Inl KeyboardInterrupt"
  shows "\<exists>b evs1. push_to_tidbyt self env = (Inr b, self1, evs1)"
  using assms
  by (cases "push_result env")
     (auto simp add: push_to_tidbyt_def Let_def is_Exception_def split: option.splits)

lemma get_raises_interrupt:
  assumes "get_bitcoin_price self env = (Inl e, self1, evs)"
  shows "e = KeyboardInterrupt"
  using assms
  by (auto simp add: get_bitcoin_price_def fetch_except_def is_Exception_def Let_def
      split: sum.splits if_splits)

lemma get_returns:
  assumes "interrupt_free env"
  shows "\<exists>v self1 evs. get_bitcoin_price self env = (Inr v, self1, evs)"
proof (cases "get_bitcoin_price self env")
  case (fields r self1 evs)
  show ?thesis
  proof (cases r)
    case (Inl e)
    with fields have "e = KeyboardInterrupt" by (auto dest: get_raises_interrupt)
    with fields Inl get_no_interrupt [OF assms, of self] show ?thesis by simp
  next
    case (Inr v)
    with fields show ?thesis by simp
  qed
qed

lemma iteration_benign:
  assumes "int_safe (last_price self)" and "benign env"
  shows "\<exists>self1 evs. iteration self update_interval env = (Inr (), self1, evs) \<and>
           int_safe (last_price self1) \<and> count_list evs (Sleep update_interval) = 1"
proof -
  from assms(2) have free: "interrupt_free env" and sl: "sleep_result env = None"
    and ps: "price_safe env"
    by (simp_all add: benign_def)
  from free have rr: "render_result env \<noteq> Inl KeyboardInterrupt"
    and pr: "push_result env \<noteq> Inl KeyboardInterrupt"
    by (simp_all add: interrupt_free_def)
  from get_returns [OF free, of self]
  obtain v self1 evs0 where g: "get_bitcoin_price self env = (Inr v, self1, evs0)"
    by blast
  from get_int_safe [OF assms(1) ps g]
  have v: "int_safe v" and s1: "int_safe (last_price self1)" by simp_all
  from create_returns [OF g v rr]
  obtain w evs1 where c: "create_webp self env = (Inr w, self1, evs1)" by blast
  from push_returns [OF c pr]
  obtain b evs2 where p: "push_to_tidbyt self env = (Inr b, self1, evs2)" by blast
  from push_no_sleep [OF p] have "count_list evs2 (Sleep update_interval) = 0" .
  with p sl s1 show ?thesis
    by (simp add: iteration_def Let_def)
qed

lemma while_true_benign:
  assumes "list_all benign envs" and "int_safe (last_price self)"
  shows "\<exists>self1 evs. while_true self update_interval envs = (None, self1, evs) \<and>
           count_list evs (Sleep update_interval) = length envs"
  using assms
proof (induction envs arbitrary: self)
  case Nil
  then show ?case by simp
next
  case (Cons env envs)
  from Cons.prems have "benign env" by simp
  from iteration_benign [OF Cons.prems(2) this, of update_interval]
  obtain self1 evs where it: "iteration self update_interval env = (Inr (), self1, evs)"
    and s1: "int_safe (last_price self1)"
    and n1: "count_list evs (Sleep update_interval) = 1"
    by blast
  from Cons.IH [OF _ s1] Cons.prems(1)
  obtain self2 evs2 where w: "while_true self1 update_interval envs = (None, self2, evs2)"
    and n2: "count_list evs2 (Sleep update_interval) = length envs"
    by auto
  from it w n1 n2 show ?case by simp
qed

lemma while_true_append:
  assumes "while_true self update_interval pre = (None, self1, evs)"
  shows "while_true self update_interval (pre @ rest) =
           (case while_true self1 update_interval rest of
              (r, self2, evs2) \<Rightarrow> (r, self2, evs @ evs2))"
  using assms
proof (induction pre arbitrary: self evs)
  case Nil
  then show ?case by (simp split: prod.splits)
next
  case (Cons env pre)
  obtain r s1 evs1 where it: "iteration self update_interval env = (r, s1, evs1)"
    by (cases "iteration self update_interval env")
  obtain r2 s2 evs2 where w: "while_true s1 update_interval pre = (r2, s2, evs2)"
    by (cases "while_true s1 update_interval pre")
  from Cons.prems it w have r: "r = Inr ()" and r2: "r2 = None" and s2: "s2 = self1"
    and e: "evs = evs1 @ evs2"
    by (auto split: sum.splits)
  from Cons.IH [of s1 evs2] w r2 s2
  have "while_true s1 update_interval (pre @ rest) =
           (case while_true self1 update_interval rest of
              (r, self2, evs3) \<Rightarrow> (r, self2, evs2 @ evs3))"
    by simp
  with it r e show ?case by (simp split: prod.splits)
qed

lemma run_continuous_updates_fst:
  "fst (run_continuous_updates self update_interval envs) =
     (case fst (while_true self update_interval envs) of
        None \<Rightarrow> Running
      | Some e \<Rightarrow> if e = KeyboardInterrupt then Stopped else Failed e)"
  by (cases "while_true self update_interval envs")
     (simp add: run_continuous_updates_def split: option.splits)

text \<open>
  Evaluations used by the examples.
\<close>

lemma status_price_response: "status_code (price_response v) = 200"
  by (simp add: price_response_def)

lemma resp_json_price_response: "resp_json (price_response v) = Inr (price_document v)"
  by (simp add: price_response_def)

lemma sleep_result_with_sleep: "sleep_result (with_sleep r env) = r"
  by (simp add: with_sleep_def)

lemma create_with_sleep:
  "create_webp self (with_sleep r env) = create_webp self env"
  using get_with_sleep [of self r env]
  by (simp add: create_webp_def with_sleep_def Let_def
      cong: sum.case_cong if_cong prod.case_cong)

lemma push_with_sleep:
  "push_to_tidbyt self (with_sleep r env) = push_to_tidbyt self env"
  using create_with_sleep [of self r env]
  by (simp add: push_to_tidbyt_def with_sleep_def Let_def
      cong: sum.case_cong if_cong prod.case_cong option.case_cong)

lemma push_sample:
  "push_to_tidbyt (init d k) (sample_env t (PFloat (Finite x)))
     = (Inr True, (init d k)\<lparr>last_price := PFloat (Finite x), last_update := Some t\<rparr>,
        [Get COINDESK_PRICE_URL, Print (FetchedNewPrice (PFloat (Finite x))),
         Post PIXLET_RENDER_URL [] (Data (render_code (py_trunc x))),
         push_request (init d k) ''RIFF'', Print PushedToTidbyt])"
  unfolding push_to_tidbyt_def create_sample
  by (simp add: sample_env_def plain_response_def push_request_def init_def)

lemma create_inf:
  "create_webp (init d k) (sample_env t (PFloat PosInf))
     = (Inl OverflowError, (init d k)\<lparr>last_price := PFloat PosInf, last_update := Some t\<rparr>,
        [Get COINDESK_PRICE_URL, Print (FetchedNewPrice (PFloat PosInf))])"
  by (simp add: create_webp_def get_fresh)

lemma iteration_inf:
  "iteration (init d k) update_interval (sample_env t (PFloat PosInf))
     = (Inl OverflowError, (init d k)\<lparr>last_price := PFloat PosInf, last_update := Some t\<rparr>,
        [Get COINDESK_PRICE_URL, Print (FetchedNewPrice (PFloat PosInf))])"
  by (simp add: iteration_def push_to_tidbyt_def create_inf)

lemma interrupt_free_sample: "interrupt_free (sample_env t v)"
  by (simp add: interrupt_free_def sample_env_def price_response_def plain_response_def)

lemma benign_failing_passes: "list_all benign failing_passes"
  by (simp add: failing_passes_def benign_def interrupt_free_def price_safe_def api_price_def
      with_get_def with_render_def with_push_def sample_env_def plain_response_def
      status_price_response read_price_document resp_json_price_response int_safe_def)

lemma push_unavailable:
  "push_to_tidbyt (init d k)
       (with_get (Inr (plain_response 503 ''unavailable'')) (sample_env t v))
     = (Inr False, init d k, [Get COINDESK_PRICE_URL, Print (FailedFetchStatus 503)])"
proof -
  have "get_bitcoin_price (init d k)
          (with_get (Inr (plain_response 503 ''unavailable'')) (sample_env t v))
        = (Inr PNone, init d k, [Get COINDESK_PRICE_URL, Print (FailedFetchStatus 503)])"
    using get_status [of "init d k"
        "with_get (Inr (plain_response 503 ''unavailable'')) (sample_env t v)"
        "plain_response 503 ''unavailable''"]
    by (simp add: init_not_cached with_get_def plain_response_def)
  from create_webp_none [OF this] show ?thesis
    by (simp add: push_to_tidbyt_def)
qed

lemma iteration_interrupted:
  "iteration (init d k) update_interval
       (with_sleep (Some KeyboardInterrupt) (sample_env t (PFloat (Finite x))))
     = (Inl KeyboardInterrupt,
        (init d k)\<lparr>last_price := PFloat (Finite x), last_update := Some t\<rparr>,
        [Get COINDESK_PRICE_URL, Print (FetchedNewPrice (PFloat (Finite x))),
         Post PIXLET_RENDER_URL [] (Data (render_code (py_trunc x))),
         push_request (init d k) ''RIFF'', Print PushedToTidbyt, Sleep update_interval])"
  by (simp add: iteration_def push_with_sleep push_sample sleep_result_with_sleep)

text \<open>
  Claim C1, as the code has it. The two handlers of \<open>run_continuous_updates\<close> are outside
  the \<open>while\<close> loop, so:
  \<^item> over any number of benign passes (any status and any \<open>Exception\<close> from the three
    HTTP calls and from reading the price document) the loop is still running and has
    slept once per pass;
  \<^item> a pass in which \<open>push_to_tidbyt\<close> returns \<open>False\<close> prints that it will retry and
    sleeps;
  \<^item> the loop is never \<open>Stopped\<close> unless a call raised \<open>KeyboardInterrupt\<close>;
  \<^item> an exception that leaves a pass ends the loop in that pass: \<open>KeyboardInterrupt\<close>
    prints the stopping message and gives \<open>Stopped\<close>; any other exception (raised by
    \<open>int(price)\<close> or by \<open>time.sleep\<close>) is printed as unexpected and
    \<open>run_continuous_updates\<close> returns just the same, with no further pass.
\<close>

theorem C1_loop:
  "(int_safe (last_price self) \<and> list_all benign envs \<longrightarrow>
      (\<exists>s evs. run_continuous_updates self update_interval envs
                   = (Running, s, Print (StartingUpdates update_interval) # evs)
               \<and> count_list evs (Sleep update_interval) = length envs))
   \<and> (push_to_tidbyt self env = (Inr False, s_push, evs_push) \<longrightarrow>
        (\<exists>r. iteration self update_interval env
                = (r, s_push, evs_push @ [Print FailedWillRetry, Sleep update_interval])))
   \<and> (list_all interrupt_free envs \<longrightarrow>
        fst (run_continuous_updates self update_interval envs) \<noteq> Stopped)
   \<and> (while_true self update_interval pre = (None, s_pre, evs_pre) \<and>
      iteration s_pre update_interval env_last = (Inl e, s_last, evs_last) \<longrightarrow>
        run_continuous_updates self update_interval (pre @ env_last # rest) =
          (if e = KeyboardInterrupt then Stopped else Failed e, s_last,
           Print (StartingUpdates update_interval) # evs_pre @ evs_last @
           [Print (if e = KeyboardInterrupt then StoppingTracker else UnexpectedError e)]))"
proof (intro conjI impI)
  assume "int_safe (last_price self) \<and> list_all benign envs"
  then have "\<exists>s evs. while_true self update_interval envs = (None, s, evs) \<and>
           count_list evs (Sleep update_interval) = length envs"
    using while_true_benign by blast
  then show "\<exists>s evs. run_continuous_updates self update_interval envs
                   = (Running, s, Print (StartingUpdates update_interval) # evs)
               \<and> count_list evs (Sleep update_interval) = length envs"
    by (auto simp add: run_continuous_updates_def)
next
  assume "push_to_tidbyt self env = (Inr False, s_push, evs_push)"
  then show "\<exists>r. iteration self update_interval env
                = (r, s_push, evs_push @ [Print FailedWillRetry, Sleep update_interval])"
    by (simp add: iteration_def Let_def split: option.splits)
next
  assume "list_all interrupt_free envs"
  from while_true_no_interrupt [OF this, of self update_interval]
  show "fst (run_continuous_updates self update_interval envs) \<noteq> Stopped"
    by (simp add: run_continuous_updates_fst split: option.splits)
next
  assume a: "while_true self update_interval pre = (None, s_pre, evs_pre) \<and>
      iteration s_pre update_interval env_last = (Inl e, s_last, evs_last)"
  then have "while_true self update_interval (pre @ env_last # rest)
               = (Some e, s_last, evs_pre @ evs_last)"
    by (simp add: while_true_append)
  then show "run_continuous_updates self update_interval (pre @ env_last # rest) =
          (if e = KeyboardInterrupt then Stopped else Failed e, s_last,
           Print (StartingUpdates update_interval) # evs_pre @ evs_last @
           [Print (if e = KeyboardInterrupt then StoppingTracker else UnexpectedError e)])"
    by (simp add: run_continuous_updates_def)
qed

text \<open>
  The three failing passes leave the loop running after three sleeps; the pass with the
  503 prints the retry message; an interrupt during the first sleep stops the loop.
\<close>

theorem C1_loop_witness:
  "(\<exists>s evs. run_continuous_updates (init ''dev'' ''key'') 300 failing_passes
                = (Running, s, Print (StartingUpdates 300) # evs)
            \<and> count_list evs (Sleep 300) = 3)
   \<and> (\<exists>r. iteration (init ''dev'' ''key'') 300
              (with_get (Inr (plain_response 503 ''unavailable''))
                 (sample_env 0 (PFloat (Finite 70000))))
            = (r, init ''dev'' ''key'',
               [Get COINDESK_PRICE_URL, Print (FailedFetchStatus 503),
                Print FailedWillRetry, Sleep 300]))
   \<and> fst (run_continuous_updates (init ''dev'' ''key'') 300 failing_passes) \<noteq> Stopped
   \<and> run_continuous_updates (init ''dev'' ''key'') 300
        [with_sleep (Some KeyboardInterrupt) (sample_env 0 (PFloat (Finite 70000)))]
      = (Stopped,
         (init ''dev'' ''key'')\<lparr>last_price := PFloat (Finite 70000), last_update := Some 0\<rparr>,
         [Print (StartingUpdates 300), Get COINDESK_PRICE_URL,
          Print (FetchedNewPrice (PFloat (Finite 70000))),
          Post PIXLET_RENDER_URL [] (Data (render_code (py_trunc 70000))),
          push_request (init ''dev'' ''key'') ''RIFF'', Print PushedToTidbyt, Sleep 300,
          Print StoppingTracker])"
proof -
  have h1: "int_safe (last_price (init ''dev'' ''key''))"
    by (simp add: int_safe_def init_def)
  have h2: "list_all interrupt_free failing_passes"
    using benign_failing_passes by (simp add: failing_passes_def benign_def)
  have h3: "while_true (init ''dev'' ''key'') 300 [] = (None, init ''dev'' ''key'', [])"
    by simp
  have h4: "length failing_passes = 3"
    by (simp add: failing_passes_def)
  from C1_loop [where self = "init ''dev'' ''key''" and envs = failing_passes
      and update_interval = 300
      and env = "with_get (Inr (plain_response 503 ''unavailable''))
                   (sample_env 0 (PFloat (Finite 70000)))"
      and s_push = "init ''dev'' ''key''"
      and evs_push = "[Get COINDESK_PRICE_URL, Print (FailedFetchStatus 503)]"
      and pre = "[]" and s_pre = "init ''dev'' ''key''" and evs_pre = "[]"
      and env_last = "with_sleep (Some KeyboardInterrupt) (sample_env 0 (PFloat (Finite 70000)))"
      and e = KeyboardInterrupt
      and s_last = "(init ''dev'' ''key'')\<lparr>last_price := PFloat (Finite 70000),
                                             last_update := Some 0\<rparr>"
      and evs_last = "[Get COINDESK_PRICE_URL,
          Print (FetchedNewPrice (PFloat (Finite 70000))),
          Post PIXLET_RENDER_URL [] (Data (render_code (py_trunc 70000))),
          push_request (init ''dev'' ''key'') ''RIFF'', Print PushedToTidbyt, Sleep 300]"
      and rest = "[]"]
    h1 h2 h3 h4 benign_failing_passes
    push_unavailable [of "''dev''" "''key''" 0 "PFloat (Finite 70000)"]
    iteration_interrupted [of "''dev''" "''key''" 300 0 70000]
  show ?thesis by simp
qed

text \<open>
  Claim C1 as stated fails: the price service answers 200 with a price that parses to
  the float infinity (\<open>1e999\<close> in the document). Nothing is interrupted, yet
  \<open>int(price)\<close> raises \<open>OverflowError\<close> outside every \<open>try\<close> of the pass, the handler
  of line 163 prints it and the loop is over before its first sleep.
\<close>

theorem C1_loop_counterexample:
  "list_all interrupt_free
     [sample_env 0 (PFloat PosInf), sample_env 300000000 (PFloat (Finite 70000))]
   \<and> run_continuous_updates (init ''dev'' ''key'') 300
       [sample_env 0 (PFloat PosInf), sample_env 300000000 (PFloat (Finite 70000))]
     = (Failed OverflowError,
        (init ''dev'' ''key'')\<lparr>last_price := PFloat PosInf, last_update := Some 0\<rparr>,
        [Print (StartingUpdates 300), Get COINDESK_PRICE_URL,
         Print (FetchedNewPrice (PFloat PosInf)), Print (UnexpectedError OverflowError)])"
  by (simp add: interrupt_free_sample run_continuous_updates_def iteration_inf)

end
